theory Spec2Isabelle
  imports Complex_Main
begin

section \<open>JavaScript values used by the client\<close>

text \<open>
  The field \<open>requestRemaining\<close> is a JavaScript number, a double. The client only ever
  stores in it the literal 600, the result of \<open>parseInt(_, 10)\<close> and the result of
  subtracting 1, so its values are integers or NaN. \<open>Num n\<close> stands for the double whose
  value is the integer \<open>n\<close>. Infinities, which only a digit string worth \<open>2 ^ 1024\<close> or
  more can produce, are outside the embedding.
\<close>

datatype number = Num int | NaN

text \<open>
  The result of an integer computation is the nearest double, ties going to the even
  significand of 53 bits. \<open>ulp53 m\<close> is the spacing of the doubles around \<open>m\<close>: 1 below
  \<open>2 ^ 53 = 9007199254740992\<close>, doubling with every further bit.
\<close>

function ulp53 :: "int \<Rightarrow> int" where
  "ulp53 m = (if m < 9007199254740992 then 1 else 2 * ulp53 (m div 2))"
  by pat_completeness auto
termination
  by (relation "measure nat") auto

declare ulp53.simps [simp del]

text \<open>The nearest double to a magnitude \<open>m \<ge> 0\<close>, and to any integer.\<close>

definition round_magnitude :: "int \<Rightarrow> int" where
  "round_magnitude m =
     (let u = ulp53 m; q = m div u; r = m mod u
      in if u < 2 * r then (q + 1) * u
         else if u = 2 * r \<and> q mod 2 = 1 then (q + 1) * u
         else q * u)"

definition round_double :: "int \<Rightarrow> int" where
  "round_double m = (if m < 0 then - round_magnitude (- m) else round_magnitude m)"

text \<open>\<open>a - b\<close> on numbers: the rounded difference; NaN is absorbing.\<close>

fun js_minus :: "number \<Rightarrow> number \<Rightarrow> number" where
  "js_minus (Num a) (Num b) = Num (round_double (a - b))"
| "js_minus _ _ = NaN"

text \<open>\<open>a >= b\<close> on numbers: every comparison with NaN is false.\<close>

fun js_ge :: "number \<Rightarrow> number \<Rightarrow> bool" where
  "js_ge (Num a) (Num b) = (b \<le> a)"
| "js_ge _ _ = False"

text \<open>
  Number to string, as a template literal \<open>`${n}`\<close> does it: the decimal digits of an
  integer, \<open>NaN\<close> for NaN. These are the digits the language prints for every integer
  below \<open>2 ^ 53\<close> in magnitude, the range of the identifiers the endpoints take; above it
  the language shortens the digits, and from \<open>10 ^ 21\<close> it prints an exponent.
\<close>

fun decimal :: "nat \<Rightarrow> string" where
  "decimal n =
     (if n < 10 then [''0123456789'' ! n]
      else decimal (n div 10) @ [''0123456789'' ! (n mod 10)])"

declare decimal.simps [simp del]

fun ToString :: "number \<Rightarrow> string" where
  "ToString (Num n) = (if n < 0 then CHR ''-'' # decimal (nat (- n)) else decimal (nat n))"
| "ToString NaN = ''NaN''"

subsection \<open>parseInt with radix 10\<close>

text \<open>
  \<open>parseInt(string, 10)\<close>: the argument is converted to a string (\<open>undefined\<close> becomes
  the text \<open>undefined\<close>), leading white space is dropped, one sign is read, and the longest
  prefix of decimal digits is the value, rounded to a double. With no digit the result is
  NaN.
\<close>

definition StrWhiteSpaceChar :: "char \<Rightarrow> bool" where
  "StrWhiteSpaceChar c = ((of_char c :: nat) \<in> set [9, 10, 11, 12, 13, 32, 160])"

definition radixDigit :: "char \<Rightarrow> bool" where
  "radixDigit c = (48 \<le> (of_char c :: nat) \<and> (of_char c :: nat) \<le> 57)"

definition mathInt :: "string \<Rightarrow> int" where
  "mathInt Z = foldl (\<lambda>acc c. 10 * acc + (of_char c - 48)) 0 Z"

definition ToString_opt :: "string option \<Rightarrow> string" where
  "ToString_opt v = (case v of None \<Rightarrow> ''undefined'' | Some s \<Rightarrow> s)"

definition parseInt :: "string option \<Rightarrow> number" where
  "parseInt v =
     (let inputString = ToString_opt v;
          S = dropWhile StrWhiteSpaceChar inputString;
          sign = (if S \<noteq> [] \<and> hd S = CHR ''-'' then - 1 else 1 :: int);
          S' = (if S \<noteq> [] \<and> (hd S = CHR ''+'' \<or> hd S = CHR ''-'') then tl S else S);
          Z = takeWhile radixDigit S'
      in if Z = [] then NaN else Num (round_double (sign * mathInt Z)))"

subsection \<open>Response bodies\<close>

text \<open>
  The body of a response is the value axios hands over in \<open>data\<close>: parsed JSON, or the raw
  text when the body is not JSON. \<open>JNumber\<close> carries the value of a finite number.
\<close>

datatype json =
    JUndefined
  | JNull
  | JBool bool
  | JNumber rat
  | JString string
  | JArray "json list"
  | JObject "(string \<times> json) list"

text \<open>The truth value of \<open>v\<close> in a condition \<open>v ? _ : _\<close>.\<close>

fun truthy :: "json \<Rightarrow> bool" where
  "truthy JUndefined = False"
| "truthy JNull = False"
| "truthy (JBool b) = b"
| "truthy (JNumber x) = (x \<noteq> 0)"
| "truthy (JString s) = (s \<noteq> [])"
| "truthy (JArray xs) = True"
| "truthy (JObject kvs) = True"

section \<open>HTTP layer: requests, responses, errors\<close>

record AxiosResponse =
  data :: json
  status :: int
  headers :: "(string \<rightharpoonup> string) option"

text \<open>
  A rejection value. \<open>isAxiosError\<close> is the truth value of that property and
  \<open>response\<close> is absent for a failure without an HTTP response (network error, timeout).
\<close>

record error =
  name :: string
  isAxiosError :: bool
  response :: "AxiosResponse option"

datatype ('e, 'a) promise = Resolved 'a | Rejected 'e

datatype Method = GET | POST

record AxiosRequest =
  http_method :: Method
  url :: string
  body :: "json option"
  responseType :: "string option"

section \<open>The client\<close>

definition ACCESS_TOKEN_URI :: string where
  "ACCESS_TOKEN_URI = ''https://www.facturation.pro/oauth/token''"

definition AUTHORIZATION_URI :: string where
  "AUTHORIZATION_URI = ''https://www.facturation.pro/oauth/authorize''"

definition API_BASE_URL :: string where
  "API_BASE_URL = ''https://www.facturation.pro''"

datatype scope = read | read_write

record FacturationProOptions =
  opt_clientId :: string
  opt_clientSecret :: string
  opt_redirectUri :: string
  opt_scope :: scope

record ClientOAuth2 =
  clientId :: string
  clientSecret :: string
  accessTokenUri :: string
  authorizationUri :: string
  redirectUri :: string
  scopes :: "scope list"

text \<open>
  The fields of the class. \<open>lastRequest\<close> is a \<open>Date\<close> object: its time value in
  milliseconds, which \<open>setTime\<close> overwrites in place.
\<close>

record FacturationPro =
  requestRemaining :: number
  lastRequest :: int
  facturationOauth2 :: ClientOAuth2

text \<open>
  What runs around the object: the callbacks that \<open>setTimeout\<close> holds (for each, the
  earliest time at which it may fire; all have the same delay, so they fire in the order of
  arming), and the log of the requests given to axios.
\<close>

record runtime = FacturationPro +
  timers :: "int list"
  sent :: "AxiosRequest list"

subsection \<open>The deferred check\<close>

text \<open>
  The callback of \<open>resetRequestRemainingTimeout\<close>, run at time \<open>now\<close>:
  \<open>this.lastRequest.setTime(this.lastRequest.getTime() + 1000 * 60)\<close> stores the advanced
  time in the \<open>Date\<close> object of the field and returns it; the comparison is strict.
\<close>

definition timeout_callback :: "int \<Rightarrow> runtime \<Rightarrow> runtime" where
  "timeout_callback now s =
     (let s1 = s\<lparr>lastRequest := lastRequest s + 1000 * 60\<rparr>;
          lastRequestAddMinute = lastRequest s1
      in if lastRequestAddMinute < now then s1\<lparr>requestRemaining := Num 600\<rparr> else s1)"

definition resetRequestRemainingTimeout :: "int \<Rightarrow> runtime \<Rightarrow> runtime" where
  "resetRequestRemainingTimeout now s = s\<lparr>timers := timers s @ [now + 1000 * 60]\<rparr>"

text \<open>The oldest pending callback fires at \<open>now\<close>, if it is due.\<close>

definition fire_timer :: "int \<Rightarrow> runtime \<Rightarrow> runtime option" where
  "fire_timer now s =
     (case timers s of
        [] \<Rightarrow> None
      | due # rest \<Rightarrow>
          if due \<le> now then Some (timeout_callback now (s\<lparr>timers := rest\<rparr>)) else None)"

subsection \<open>The response interceptor\<close>

definition onFulfilled :: "AxiosResponse \<Rightarrow> int \<Rightarrow> runtime \<Rightarrow> AxiosResponse \<times> runtime" where
  "onFulfilled res now s =
     (let s1 = (case headers res of
                  None \<Rightarrow> s
                | Some h \<Rightarrow>
                    (case h ''x-ratelimit-remaining'' of
                       None \<Rightarrow> s
                     | Some v \<Rightarrow>
                         if v \<noteq> [] then s\<lparr>requestRemaining := parseInt (Some v)\<rparr> else s));
          s2 = s1\<lparr>lastRequest := now\<rparr>;
          s3 = resetRequestRemainingTimeout now s2
      in (res, s3))"

definition onRejected :: "error \<Rightarrow> int \<Rightarrow> runtime \<Rightarrow> (error, AxiosResponse) promise \<times> runtime" where
  "onRejected err now s =
     (let s1 = (if isAxiosError err then
                  (case response err of
                     None \<Rightarrow> s
                   | Some res \<Rightarrow>
                       (case headers res of
                          None \<Rightarrow> s
                        | Some h \<Rightarrow>
                            s\<lparr>requestRemaining := parseInt (h ''x-ratelimit-remaining'')\<rparr>))
                else s);
          s2 = resetRequestRemainingTimeout now s1
      in (Rejected err, s2))"

subsection \<open>Construction\<close>

text \<open>
  \<open>create(options)\<close> at time \<open>now\<close>. The constructor also registers \<open>onFulfilled\<close> and
  \<open>onRejected\<close> with axios; \<open>axios_request\<close> below runs them on every outcome.
\<close>

definition create :: "FacturationProOptions \<Rightarrow> int \<Rightarrow> runtime" where
  "create options now =
     \<lparr> requestRemaining = Num 600,
       lastRequest = now,
       facturationOauth2 =
         \<lparr> clientId = opt_clientId options,
           clientSecret = opt_clientSecret options,
           accessTokenUri = ACCESS_TOKEN_URI,
           authorizationUri = AUTHORIZATION_URI,
           redirectUri = opt_redirectUri options,
           scopes = [opt_scope options] \<rparr>,
       timers = [],
       sent = [] \<rparr>"

section \<open>axios\<close>

text \<open>
  The network answers a request with a response (status accepted) or with a rejection:
  the \<open>outcome\<close> of the request. \<open>interceptors_response\<close> is the pair of callbacks the
  constructor registers, run at time \<open>now\<close>, when the outcome arrives; the caller of axios
  receives what the callback returns. \<open>axios_request\<close> logs the request first.
\<close>

type_synonym outcome = "(error, AxiosResponse) promise"

definition interceptors_response :: "outcome \<Rightarrow> int \<Rightarrow> runtime \<Rightarrow> outcome \<times> runtime" where
  "interceptors_response out now s =
     (case out of
        Resolved res \<Rightarrow> (case onFulfilled res now s of (res', s') \<Rightarrow> (Resolved res', s'))
      | Rejected err \<Rightarrow> onRejected err now s)"

definition axios_request :: "AxiosRequest \<Rightarrow> outcome \<Rightarrow> int \<Rightarrow> runtime \<Rightarrow> outcome \<times> runtime" where
  "axios_request req out now s = interceptors_response out now (s\<lparr>sent := sent s @ [req]\<rparr>)"

definition axios_get ::
  "string \<Rightarrow> string option \<Rightarrow> outcome \<Rightarrow> int \<Rightarrow> runtime \<Rightarrow> outcome \<times> runtime" where
  "axios_get u config =
     axios_request \<lparr> http_method = GET, url = u, body = None, responseType = config \<rparr>"

definition axios_post ::
  "string \<Rightarrow> json option \<Rightarrow> outcome \<Rightarrow> int \<Rightarrow> runtime \<Rightarrow> outcome \<times> runtime" where
  "axios_post u d =
     axios_request \<lparr> http_method = POST, url = u, body = d, responseType = None \<rparr>"

section \<open>Methods of the client\<close>

definition responseHandler :: "AxiosResponse \<Rightarrow> json" where
  "responseHandler axiosResponse = data axiosResponse"

text \<open>\<open>.then((res) => this.responseHandler(res))\<close>: a rejection passes through.\<close>

definition then_responseHandler :: "outcome \<times> runtime \<Rightarrow> (error, json) promise \<times> runtime" where
  "then_responseHandler p =
     (case p of
        (Resolved res, s) \<Rightarrow> (Resolved (responseHandler res), s)
      | (Rejected e, s) \<Rightarrow> (Rejected e, s))"

subsection \<open>Tokens\<close>

text \<open>
  The token exchange itself is the OAuth2 library's: \<open>code_getToken\<close> and \<open>refresh\<close> are
  its two operations, taken as parameters. \<open>createToken\<close> only builds the token object.
\<close>

record ClientOAuth2Token =
  token_access :: string
  token_refresh :: string
  token_type :: string

definition createToken :: "string \<Rightarrow> string \<Rightarrow> string \<Rightarrow> ClientOAuth2Token" where
  "createToken access refresh type =
     \<lparr> token_access = access, token_refresh = refresh, token_type = type \<rparr>"

definition getTokenFromUri ::
  "(ClientOAuth2 \<Rightarrow> string \<Rightarrow> ('e, 't) promise) \<Rightarrow> string \<Rightarrow> runtime
     \<Rightarrow> ('e, 't) promise \<times> runtime" where
  "getTokenFromUri code_getToken uri s =
     (let s1 = s\<lparr>requestRemaining := js_minus (requestRemaining s) (Num 1)\<rparr>
      in (code_getToken (facturationOauth2 s1) uri, s1))"

definition getNewAccessToken ::
  "(ClientOAuth2 \<Rightarrow> ClientOAuth2Token \<Rightarrow> ('e, 't) promise) \<Rightarrow> string \<Rightarrow> runtime
     \<Rightarrow> ('e, 't) promise \<times> runtime" where
  "getNewAccessToken refresh refreshToken s =
     (let token = createToken [] refreshToken ''Bearer'';
          s1 = s\<lparr>requestRemaining := js_minus (requestRemaining s) (Num 1)\<rparr>
      in (refresh (facturationOauth2 s1) token, s1))"

subsection \<open>Endpoints\<close>

text \<open>
  Each endpoint takes, after the arguments of the source, the outcome of the request it
  issues and the time at which that outcome arrives.
\<close>

record CustomersOptions =
  api_id :: number

definition getCustomersByFirmId ::
  "number \<Rightarrow> CustomersOptions \<Rightarrow> string \<Rightarrow> outcome \<Rightarrow> int \<Rightarrow> runtime
     \<Rightarrow> (error, json) promise \<times> runtime" where
  "getCustomersByFirmId firmId options accessToken out now s =
     then_responseHandler
       (axios_get
          (API_BASE_URL @ ''/firms/'' @ ToString firmId @ ''/customers.json?access_token=''
             @ accessToken @ ''&api_id='' @ ToString (api_id options))
          None out now s)"

text \<open>
  In \<open>getFirms\<close> the property \<open>firms\<close> is read only from a truthy body, where the read
  cannot throw: it is the member of an object and \<open>undefined\<close> on anything else.
\<close>

fun get_property :: "json \<Rightarrow> string \<Rightarrow> json" where
  "get_property (JObject kvs) k = (case map_of kvs k of None \<Rightarrow> JUndefined | Some v \<Rightarrow> v)"
| "get_property v k = JUndefined"

definition getFirms ::
  "string \<Rightarrow> outcome \<Rightarrow> int \<Rightarrow> runtime \<Rightarrow> (error, json) promise \<times> runtime" where
  "getFirms accessToken out now s =
     (case then_responseHandler
             (axios_get (API_BASE_URL @ ''/account.json?access_token='' @ accessToken)
                None out now s) of
        (Resolved account, s') \<Rightarrow>
          (Resolved (if truthy account then get_property account ''firms'' else JArray []), s')
      | (Rejected e, s') \<Rightarrow> (Rejected e, s'))"

definition createCustomer ::
  "number \<Rightarrow> json \<Rightarrow> string \<Rightarrow> outcome \<Rightarrow> int \<Rightarrow> runtime
     \<Rightarrow> (error, json) promise \<times> runtime" where
  "createCustomer firmId customer accessToken out now s =
     then_responseHandler
       (axios_post
          (API_BASE_URL @ ''/firms/'' @ ToString firmId @ ''/customers.json?access_token=''
             @ accessToken)
          (Some customer) out now s)"

definition getInvoicesByFirmId ::
  "number \<Rightarrow> string \<Rightarrow> outcome \<Rightarrow> int \<Rightarrow> runtime \<Rightarrow> (error, json) promise \<times> runtime" where
  "getInvoicesByFirmId firmId accessToken out now s =
     then_responseHandler
       (axios_get
          (API_BASE_URL @ ''/firms/'' @ ToString firmId @ ''/invoices.json?access_token=''
             @ accessToken)
          None out now s)"

definition getInvoiceById ::
  "number \<Rightarrow> number \<Rightarrow> string \<Rightarrow> outcome \<Rightarrow> int \<Rightarrow> runtime
     \<Rightarrow> (error, json) promise \<times> runtime" where
  "getInvoiceById firmId invoiceId accessToken out now s =
     then_responseHandler
       (axios_get
          (API_BASE_URL @ ''/firms/'' @ ToString firmId @ ''/invoices/'' @ ToString invoiceId
             @ ''.json?access_token='' @ accessToken)
          None out now s)"

definition createInvoice ::
  "number \<Rightarrow> json \<Rightarrow> string \<Rightarrow> outcome \<Rightarrow> int \<Rightarrow> runtime
     \<Rightarrow> (error, json) promise \<times> runtime" where
  "createInvoice firmId invoice accessToken out now s =
     then_responseHandler
       (axios_post
          (API_BASE_URL @ ''/firms/'' @ ToString firmId @ ''/invoices.json?access_token=''
             @ accessToken)
          (Some invoice) out now s)"

definition createCredit ::
  "number \<Rightarrow> number \<Rightarrow> string \<Rightarrow> outcome \<Rightarrow> int \<Rightarrow> runtime
     \<Rightarrow> (error, json) promise \<times> runtime" where
  "createCredit firmId invoiceId accessToken out now s =
     then_responseHandler
       (axios_post
          (API_BASE_URL @ ''/firms/'' @ ToString firmId @ ''/invoices/'' @ ToString invoiceId
             @ ''/refund.json?access_token='' @ accessToken)
          None out now s)"

definition checkFacturationProRateLimit :: "number \<Rightarrow> runtime \<Rightarrow> bool \<times> runtime" where
  "checkFacturationProRateLimit requestNumber s =
     (js_ge (requestRemaining s) requestNumber, s)"

text \<open>
  \<open>download\<close> passes \<open>{ responseType }\<close> as the request configuration when the argument is
  truthy (neither \<open>null\<close> nor the empty string), and returns the response itself.
\<close>

definition download ::
  "number \<Rightarrow> number \<Rightarrow> string option \<Rightarrow> string \<Rightarrow> outcome \<Rightarrow> int \<Rightarrow> runtime
     \<Rightarrow> outcome \<times> runtime" where
  "download firmId invoiceId rt accessToken out now s =
     (let config = (case rt of None \<Rightarrow> None | Some r \<Rightarrow> if r \<noteq> [] then Some r else None)
      in axios_get
           (API_BASE_URL @ ''/firms/'' @ ToString firmId @ ''/invoices/'' @ ToString invoiceId
              @ ''.pdf?original=1&access_token='' @ accessToken)
           config out now s)"

section \<open>Runs of the rate-limit tracker\<close>

text \<open>
  The events that reach the tracker, each with the time at which it happens: a response or
  a rejection arrives at the interceptor, or the oldest pending deferred check fires.
  A run is accepted when time does not go backwards and no check fires before it is due.
\<close>

datatype event = Response AxiosResponse | Failure error | Timeout

fun step :: "event \<Rightarrow> int \<Rightarrow> runtime \<Rightarrow> runtime option" where
  "step (Response res) now s = Some (snd (interceptors_response (Resolved res) now s))"
| "step (Failure err) now s = Some (snd (interceptors_response (Rejected err) now s))"
| "step Timeout now s = fire_timer now s"

fun run :: "int \<Rightarrow> (int \<times> event) list \<Rightarrow> runtime \<Rightarrow> runtime option" where
  "run t0 [] s = Some s"
| "run t0 ((t, e) # es) s =
     (if t < t0 then None
      else case step e t s of None \<Rightarrow> None | Some s' \<Rightarrow> run t es s')"

text \<open>The two rate-limit fields of a state.\<close>

definition rate_limit_fields :: "runtime \<Rightarrow> number \<times> int" where
  "rate_limit_fields s = (requestRemaining s, lastRequest s)"

section \<open>Sample inputs\<close>

definition sample_options :: FacturationProOptions where
  "sample_options =
     \<lparr> opt_clientId = ''id'', opt_clientSecret = ''secret'',
       opt_redirectUri = ''https://example.org/callback'', opt_scope = read_write \<rparr>"

text \<open>A response whose rate-limit header has the given text, with an empty body.\<close>

definition response_remaining :: "string \<Rightarrow> AxiosResponse" where
  "response_remaining v =
     \<lparr> data = JString [], status = 200,
       headers = Some (map_of [(''content-type'', ''application/json''),
                               (''x-ratelimit-remaining'', v)]) \<rparr>"

text \<open>A gateway failure: an HTTP error response that has headers, none of them the
  rate-limit header.\<close>

definition bad_gateway :: error where
  "bad_gateway =
     \<lparr> name = ''Error'', isAxiosError = True,
       response = Some \<lparr> data = JString ''Bad Gateway'', status = 502,
                         headers = Some (map_of [(''content-type'', ''text/html'')]) \<rparr> \<rparr>"

text \<open>A successful response without the rate-limit header.\<close>

definition plain_response :: AxiosResponse where
  "plain_response =
     \<lparr> data = JString ''ok'', status = 200,
       headers = Some (map_of [(''content-type'', ''text/plain'')]) \<rparr>"

text \<open>A rejected request whose error response carries the rate-limit header.\<close>

definition too_many_requests :: error where
  "too_many_requests =
     \<lparr> name = ''Error'', isAxiosError = True,
       response = Some (response_remaining ''0'' \<lparr> status := 429 \<rparr>) \<rparr>"

text \<open>An account body with one firm, and the response that carries it.\<close>

definition account_body :: json where
  "account_body =
     JObject [(''id'', JNumber 7),
              (''firms'', JArray [JObject [(''id'', JNumber 12), (''name'', JString ''ACME'')]])]"

definition account_response :: AxiosResponse where
  "account_response =
     \<lparr> data = account_body, status = 200,
       headers = Some (map_of [(''x-ratelimit-remaining'', ''598'')]) \<rparr>"

text \<open>A token exchange that succeeds, and one that fails.\<close>

definition exchange_ok :: "ClientOAuth2 \<Rightarrow> string \<Rightarrow> (string, ClientOAuth2Token) promise" where
  "exchange_ok c uri = Resolved (createToken ''access'' ''refresh'' ''bearer'')"


section \<open>Evaluation and frame lemmas\<close>

lemma round_magnitude_exact: "m \<le> 9007199254740992 \<Longrightarrow> round_magnitude m = m"
proof (cases "m < 9007199254740992")
  case True
  then have "ulp53 m = 1"
    by (simp add: ulp53.simps [of m])
  then show ?thesis
    by (simp add: round_magnitude_def)
next
  case False
  assume "m \<le> 9007199254740992"
  with False have m: "m = 9007199254740992"
    by simp
  have "ulp53 9007199254740992 = 2"
    by (simp add: ulp53.simps [of 9007199254740992] ulp53.simps [of 4503599627370496])
  then show ?thesis
    unfolding m by (simp add: round_magnitude_def)
qed

lemma round_double_exact:
  "- 9007199254740992 \<le> m \<Longrightarrow> m \<le> 9007199254740992 \<Longrightarrow> round_double m = m"
  by (simp add: round_double_def round_magnitude_exact)

lemma round_double_tie_to_even:
  "round_double (- 9007199254740993) = - 9007199254740992 \<and>
   round_double 9007199254740993 = 9007199254740992 \<and>
   round_double 9007199254740995 = 9007199254740996"
  by (simp add: round_double_def round_magnitude_def
        ulp53.simps [of 9007199254740993] ulp53.simps [of 4503599627370496]
        ulp53.simps [of 9007199254740995] ulp53.simps [of 4503599627370497])

lemma js_minus_below_exact_range:
  "js_minus (Num (- 9007199254740992)) (Num 1) = Num (- 9007199254740992)"
  using round_double_tie_to_even by simp

lemmas parseInt_defs =
  parseInt_def ToString_opt_def StrWhiteSpaceChar_def radixDigit_def mathInt_def
  round_double_exact

lemma parseInt_rounds: "parseInt (Some ''9007199254740993'') = Num 9007199254740992"
  using round_double_tie_to_even
  by (simp add: parseInt_def ToString_opt_def StrWhiteSpaceChar_def radixDigit_def mathInt_def)

lemma parseInt_599: "parseInt (Some ''599'') = Num 599"
  by (simp add: parseInt_defs)

lemma parseInt_598: "parseInt (Some ''598'') = Num 598"
  by (simp add: parseInt_defs)

lemma parseInt_0: "parseInt (Some ''0'') = Num 0"
  by (simp add: parseInt_defs)

lemma parseInt_signed_prefix: "parseInt (Some '' -12abc'') = Num (- 12)"
  by (simp add: parseInt_defs)

lemma parseInt_undefined: "parseInt None = NaN"
  by (simp add: parseInt_defs)

lemma timeout_callback_lastRequest:
  "lastRequest (timeout_callback now s) = lastRequest s + 60000"
  by (simp add: timeout_callback_def Let_def)

lemma timeout_callback_requestRemaining:
  "requestRemaining (timeout_callback now s) =
     (if lastRequest s + 60000 < now then Num 600 else requestRemaining s)"
  by (simp add: timeout_callback_def Let_def)

lemma fst_interceptors_response: "fst (interceptors_response out now s) = out"
  by (cases out) (simp_all add: interceptors_response_def onFulfilled_def onRejected_def Let_def)

lemma interceptors_response_sent:
  "snd (interceptors_response out now (s\<lparr>sent := xs\<rparr>)) =
     (snd (interceptors_response out now s))\<lparr>sent := xs\<rparr>"
  by (cases out)
     (simp_all add: interceptors_response_def onFulfilled_def onRejected_def
        resetRequestRemainingTimeout_def Let_def split: option.splits)

lemma axios_request_eq:
  "axios_request req out now s =
     (out, (snd (interceptors_response out now s))\<lparr>sent := sent s @ [req]\<rparr>)"
  by (simp add: axios_request_def prod_eq_iff fst_interceptors_response
        interceptors_response_sent)

lemma then_responseHandler_eq:
  "then_responseHandler (out, s) =
     (case out of Resolved res \<Rightarrow> Resolved (data res) | Rejected e \<Rightarrow> Rejected e, s)"
  by (cases out) (simp_all add: then_responseHandler_def responseHandler_def)

lemma rate_limit_fields_sent [simp]:
  "rate_limit_fields (s\<lparr>sent := xs\<rparr>) = rate_limit_fields s"
  by (simp add: rate_limit_fields_def)

lemmas endpoint_defs =
  getCustomersByFirmId_def createCustomer_def getInvoicesByFirmId_def getInvoiceById_def
  createInvoice_def createCredit_def download_def axios_get_def axios_post_def

lemmas endpoint_simps = endpoint_defs axios_request_eq then_responseHandler_eq

lemma getFirms_eq:
  "getFirms accessToken out now s =
     (case out of
        Resolved res \<Rightarrow>
          Resolved (if truthy (data res) then get_property (data res) ''firms'' else JArray [])
      | Rejected e \<Rightarrow> Rejected e,
      (snd (interceptors_response out now s))
        \<lparr>sent := sent s @ [\<lparr> http_method = GET,
                              url = API_BASE_URL @ ''/account.json?access_token='' @ accessToken,
                              body = None, responseType = None \<rparr>]\<rparr>)"
  by (cases out) (simp_all add: getFirms_def axios_get_def axios_request_eq then_responseHandler_eq)

lemma getInvoiceById_example:
  "sent (snd (getInvoiceById (Num 12) (Num 345) ''tok'' out now (create sample_options 0))) =
     [\<lparr> http_method = GET,
        url = ''https://www.facturation.pro/firms/12/invoices/345.json?access_token=tok'',
        body = None, responseType = None \<rparr>]"
  by (simp add: endpoint_simps API_BASE_URL_def create_def decimal.simps)

section \<open>The rate-limit tracker\<close>

text \<open>
  C1. The claim: once a response has armed the deferred check, the check restores
  \<open>requestRemaining\<close> to 600 when it fires after 60 quiet seconds, does not reset when a
  request came in between, and leaves \<open>lastRequest\<close> as it is.

  The code at a run where the claim fails: the client is created at time 0; a response with
  599 remaining arrives at 0 and one with 598 at 30000 ms. The first check fires at 60001
  and rightly does not reset. The second check fires at 95000, 65 seconds after the last
  response and with no request in between, and \<open>requestRemaining\<close> is still 598: each check
  has moved \<open>lastRequest\<close> forward by a minute, from 30000 to 150000. With a single response
  at 0 and its check at 60001 the reset happens, and \<open>lastRequest\<close> has become 60000.
\<close>

theorem deferred_check_misses_quiet_minute:
  "map_option rate_limit_fields
     (run 0 [(0, Response (response_remaining ''599'')),
             (30000, Response (response_remaining ''598'')),
             (60001, Timeout),
             (95000, Timeout)]
        (create sample_options 0)) = Some (Num 598, 150000) \<and>
   map_option rate_limit_fields
     (run 0 [(0, Response (response_remaining ''599'')),
             (60001, Timeout)]
        (create sample_options 0)) = Some (Num 600, 60000)"
  by (simp add: create_def response_remaining_def interceptors_response_def onFulfilled_def
        resetRequestRemainingTimeout_def fire_timer_def timeout_callback_def rate_limit_fields_def
        parseInt_599 parseInt_598 Let_def)

text \<open>
  C2. The claim: for a success and for an error response alike, \<open>requestRemaining\<close> is set
  from the rate-limit header exactly when the response carries it, and \<open>lastRequest\<close>
  becomes the current time.

  The code on a client created at time 0, for an outcome arriving at 5000: a success
  without the header keeps 600 and stores 5000, as claimed; an error response without the
  header stores NaN and keeps the time 0; an error response with the header stores its value
  and still keeps the time 0.
\<close>

theorem error_interceptor_differs_from_success:
  "rate_limit_fields
     (snd (interceptors_response (Resolved plain_response) 5000 (create sample_options 0)))
     = (Num 600, 5000) \<and>
   rate_limit_fields
     (snd (interceptors_response (Rejected bad_gateway) 5000 (create sample_options 0)))
     = (NaN, 0) \<and>
   rate_limit_fields
     (snd (interceptors_response (Rejected too_many_requests) 5000 (create sample_options 0)))
     = (Num 0, 0)"
  by (simp add: create_def plain_response_def bad_gateway_def too_many_requests_def
        response_remaining_def interceptors_response_def onFulfilled_def onRejected_def
        resetRequestRemainingTimeout_def rate_limit_fields_def parseInt_undefined parseInt_0
        Let_def)

text \<open>
  C3. The claim: \<open>requestRemaining\<close> is an integer in every reachable state, 600 after
  construction.

  The code: it is 600 after construction, and after one endpoint call whose request is
  rejected with an error response that lacks the rate-limit header it is NaN.
\<close>

theorem requestRemaining_NaN_reachable:
  "requestRemaining (create sample_options 0) = Num 600 \<and>
   requestRemaining
     (snd (getInvoicesByFirmId (Num 12) ''token'' (Rejected bad_gateway) 1000
             (create sample_options 0))) = NaN"
  by (simp add: endpoint_simps create_def bad_gateway_def interceptors_response_def onRejected_def
        resetRequestRemainingTimeout_def parseInt_undefined Let_def)

text \<open>
  C4, as stated: no public method other than the interceptor and its timer changes
  \<open>requestRemaining\<close> or \<open>lastRequest\<close>. It fails for \<open>getTokenFromUri\<close>, which issues no
  axios request and lowers \<open>requestRemaining\<close>.
\<close>

theorem getTokenFromUri_changes_requestRemaining:
  "rate_limit_fields
     (snd (getTokenFromUri exchange_ok ''https://example.org/callback?code=abc''
             (create sample_options 0)))
     \<noteq> rate_limit_fields (create sample_options 0)"
  by (simp add: getTokenFromUri_def create_def rate_limit_fields_def round_double_exact Let_def)

text \<open>
  C4, amended: \<open>checkFacturationProRateLimit\<close> changes nothing; every endpoint method and
  \<open>download\<close> leave the two rate-limit fields as the interceptor leaves them on the outcome
  of the request; \<open>getTokenFromUri\<close> and \<open>getNewAccessToken\<close> leave \<open>lastRequest\<close> as it is
  and subtract 1 from \<open>requestRemaining\<close>.
\<close>

theorem rate_limit_fields_frame:
  "snd (checkFacturationProRateLimit requestNumber s) = s \<and>
   rate_limit_fields (snd (getCustomersByFirmId firmId options accessToken out now s)) =
     rate_limit_fields (snd (interceptors_response out now s)) \<and>
   rate_limit_fields (snd (getFirms accessToken out now s)) =
     rate_limit_fields (snd (interceptors_response out now s)) \<and>
   rate_limit_fields (snd (createCustomer firmId entity accessToken out now s)) =
     rate_limit_fields (snd (interceptors_response out now s)) \<and>
   rate_limit_fields (snd (getInvoicesByFirmId firmId accessToken out now s)) =
     rate_limit_fields (snd (interceptors_response out now s)) \<and>
   rate_limit_fields (snd (getInvoiceById firmId invoiceId accessToken out now s)) =
     rate_limit_fields (snd (interceptors_response out now s)) \<and>
   rate_limit_fields (snd (createInvoice firmId entity accessToken out now s)) =
     rate_limit_fields (snd (interceptors_response out now s)) \<and>
   rate_limit_fields (snd (createCredit firmId invoiceId accessToken out now s)) =
     rate_limit_fields (snd (interceptors_response out now s)) \<and>
   rate_limit_fields (snd (download firmId invoiceId rt accessToken out now s)) =
     rate_limit_fields (snd (interceptors_response out now s)) \<and>
   rate_limit_fields (snd (getTokenFromUri code_getToken uri s)) =
     (js_minus (requestRemaining s) (Num 1), lastRequest s) \<and>
   rate_limit_fields (snd (getNewAccessToken refresh refreshToken s)) =
     (js_minus (requestRemaining s) (Num 1), lastRequest s)"
  by (simp add: endpoint_simps getFirms_eq checkFacturationProRateLimit_def getTokenFromUri_def
        getNewAccessToken_def Let_def)
     (simp add: rate_limit_fields_def)

text \<open>
  C5. For every integer \<open>n\<close>, \<open>checkFacturationProRateLimit(n)\<close> answers true exactly when
  \<open>requestRemaining\<close> is a number that is at least \<open>n\<close>, and the call leaves the state as
  it is.
\<close>

theorem checkFacturationProRateLimit_advisory:
  "snd (checkFacturationProRateLimit (Num n) s) = s \<and>
   fst (checkFacturationProRateLimit (Num n) s) = (\<exists>m. requestRemaining s = Num m \<and> n \<le> m)"
  by (cases "requestRemaining s") (simp_all add: checkFacturationProRateLimit_def)

section \<open>Endpoint methods\<close>

text \<open>
  C6, as stated: each of the seven endpoint methods resolves with the body of the response.
  It fails for \<open>getFirms\<close>: on an account body with a \<open>firms\<close> member the result is that
  member, not the body.
\<close>

theorem getFirms_result_not_body:
  "fst (getFirms ''token'' (Resolved account_response) 1000 (create sample_options 0))
     \<noteq> Resolved (data account_response)"
  by (simp add: getFirms_eq account_response_def account_body_def)

text \<open>
  C6, amended: each endpoint method other than \<open>getFirms\<close> resolves with exactly the body
  of the response; \<open>getFirms\<close> resolves with the \<open>firms\<close> member of a truthy body and with
  the empty list for a falsy one.
\<close>

theorem endpoints_resolve_with_body:
  "fst (getCustomersByFirmId firmId options accessToken (Resolved res) now s)
     = Resolved (data res) \<and>
   fst (createCustomer firmId entity accessToken (Resolved res) now s) = Resolved (data res) \<and>
   fst (getInvoicesByFirmId firmId accessToken (Resolved res) now s) = Resolved (data res) \<and>
   fst (getInvoiceById firmId invoiceId accessToken (Resolved res) now s)
     = Resolved (data res) \<and>
   fst (createInvoice firmId entity accessToken (Resolved res) now s) = Resolved (data res) \<and>
   fst (createCredit firmId invoiceId accessToken (Resolved res) now s) = Resolved (data res) \<and>
   fst (getFirms accessToken (Resolved res) now s) =
     Resolved (if truthy (data res) then get_property (data res) ''firms'' else JArray [])"
  by (simp add: endpoint_simps getFirms_eq)

text \<open>
  C7. Every endpoint method, and \<open>download\<close>, adds exactly one request to those issued:
  GET or POST as the operation fixes it, the URL built from the fixed template with the
  access token as the \<open>access_token\<close> query parameter, and for \<open>createCustomer\<close> and
  \<open>createInvoice\<close> the given entity as the body.
\<close>

theorem endpoints_issue_one_request:
  "sent (snd (getCustomersByFirmId firmId options accessToken out now s)) =
     sent s @ [\<lparr> http_method = GET,
                  url = ''https://www.facturation.pro/firms/'' @ ToString firmId
                        @ ''/customers.json?access_token='' @ accessToken
                        @ ''&api_id='' @ ToString (api_id options),
                  body = None, responseType = None \<rparr>] \<and>
   sent (snd (getFirms accessToken out now s)) =
     sent s @ [\<lparr> http_method = GET,
                  url = ''https://www.facturation.pro/account.json?access_token='' @ accessToken,
                  body = None, responseType = None \<rparr>] \<and>
   sent (snd (createCustomer firmId entity accessToken out now s)) =
     sent s @ [\<lparr> http_method = POST,
                  url = ''https://www.facturation.pro/firms/'' @ ToString firmId
                        @ ''/customers.json?access_token='' @ accessToken,
                  body = Some entity, responseType = None \<rparr>] \<and>
   sent (snd (getInvoicesByFirmId firmId accessToken out now s)) =
     sent s @ [\<lparr> http_method = GET,
                  url = ''https://www.facturation.pro/firms/'' @ ToString firmId
                        @ ''/invoices.json?access_token='' @ accessToken,
                  body = None, responseType = None \<rparr>] \<and>
   sent (snd (getInvoiceById firmId invoiceId accessToken out now s)) =
     sent s @ [\<lparr> http_method = GET,
                  url = ''https://www.facturation.pro/firms/'' @ ToString firmId
                        @ ''/invoices/'' @ ToString invoiceId
                        @ ''.json?access_token='' @ accessToken,
                  body = None, responseType = None \<rparr>] \<and>
   sent (snd (createInvoice firmId entity accessToken out now s)) =
     sent s @ [\<lparr> http_method = POST,
                  url = ''https://www.facturation.pro/firms/'' @ ToString firmId
                        @ ''/invoices.json?access_token='' @ accessToken,
                  body = Some entity, responseType = None \<rparr>] \<and>
   sent (snd (createCredit firmId invoiceId accessToken out now s)) =
     sent s @ [\<lparr> http_method = POST,
                  url = ''https://www.facturation.pro/firms/'' @ ToString firmId
                        @ ''/invoices/'' @ ToString invoiceId
                        @ ''/refund.json?access_token='' @ accessToken,
                  body = None, responseType = None \<rparr>] \<and>
   sent (snd (download firmId invoiceId rt accessToken out now s)) =
     sent s @ [\<lparr> http_method = GET,
                  url = ''https://www.facturation.pro/firms/'' @ ToString firmId
                        @ ''/invoices/'' @ ToString invoiceId
                        @ ''.pdf?original=1&access_token='' @ accessToken,
                  body = None,
                  responseType = (if rt = Some [] then None else rt) \<rparr>]"
  by (cases rt) (simp_all add: endpoint_simps getFirms_eq API_BASE_URL_def Let_def)

text \<open>
  C8. A rejected request rejects the caller's promise with the same error: the error
  callback of the interceptor returns the rejection it was given, every endpoint method and
  \<open>download\<close> pass it on, and when the error is an axios error whose response has headers,
  \<open>requestRemaining\<close> has been read from the rate-limit header first.
\<close>

theorem rejection_propagates:
  "fst (onRejected err now s) = Rejected err \<and>
   fst (getCustomersByFirmId firmId options accessToken (Rejected err) now s) = Rejected err \<and>
   fst (getFirms accessToken (Rejected err) now s) = Rejected err \<and>
   fst (createCustomer firmId entity accessToken (Rejected err) now s) = Rejected err \<and>
   fst (getInvoicesByFirmId firmId accessToken (Rejected err) now s) = Rejected err \<and>
   fst (getInvoiceById firmId invoiceId accessToken (Rejected err) now s) = Rejected err \<and>
   fst (createInvoice firmId entity accessToken (Rejected err) now s) = Rejected err \<and>
   fst (createCredit firmId invoiceId accessToken (Rejected err) now s) = Rejected err \<and>
   fst (download firmId invoiceId rt accessToken (Rejected err) now s) = Rejected err \<and>
   (isAxiosError err \<and> response err = Some res \<and> headers res = Some h \<longrightarrow>
      requestRemaining (snd (onRejected err now s)) = parseInt (h ''x-ratelimit-remaining''))"
  by (simp add: endpoint_simps getFirms_eq Let_def)
     (simp add: onRejected_def resetRequestRemainingTimeout_def Let_def)

theorem rejection_propagates_witness:
  "isAxiosError too_many_requests \<and>
   response too_many_requests = Some (response_remaining ''0'' \<lparr> status := 429 \<rparr>) \<and>
   fst (createInvoice (Num 12) JNull ''token'' (Rejected too_many_requests) 1000
          (create sample_options 0)) = Rejected too_many_requests \<and>
   requestRemaining (snd (onRejected too_many_requests 1000 (create sample_options 0))) = Num 0"
proof -
  let ?h = "map_of [(''content-type'', ''application/json''), (''x-ratelimit-remaining'', ''0'')]"
  have h: "isAxiosError too_many_requests \<and>
           response too_many_requests = Some (response_remaining ''0'' \<lparr> status := 429 \<rparr>) \<and>
           headers (response_remaining ''0'' \<lparr> status := 429 \<rparr>) = Some ?h"
    by (simp add: too_many_requests_def response_remaining_def)
  show ?thesis
    using h rejection_propagates
              [of too_many_requests 1000 "create sample_options 0" "Num 12" _ "''token''" JNull
                 _ _ "response_remaining ''0'' \<lparr> status := 429 \<rparr>" ?h]
    by (simp add: parseInt_0)
qed

section \<open>Token methods\<close>




section \<open>The list of firms\<close>

text \<open>
  C10. \<open>getFirms\<close> resolves with the \<open>firms\<close> member of the account object in the body,
  and with the empty list when the body is absent or falsy; a response always resolves,
  whatever its body, and a rejected request rejects with its error.
\<close>

theorem getFirms_result:
  "(data res = JObject kvs \<and> map_of kvs ''firms'' = Some firms \<longrightarrow>
      fst (getFirms accessToken (Resolved res) now s) = Resolved firms) \<and>
   (truthy (data res) \<longrightarrow>
      fst (getFirms accessToken (Resolved res) now s) =
        Resolved (get_property (data res) ''firms'')) \<and>
   (\<not> truthy (data res) \<longrightarrow>
      fst (getFirms accessToken (Resolved res) now s) = Resolved (JArray [])) \<and>
   (\<exists>v. fst (getFirms accessToken (Resolved res) now s) = Resolved v) \<and>
   fst (getFirms accessToken (Rejected err) now s) = Rejected err"
  by (auto simp add: getFirms_eq)

theorem getFirms_result_witness:
  "fst (getFirms ''token'' (Resolved account_response) 1000 (create sample_options 0)) =
     Resolved (JArray [JObject [(''id'', JNumber 12), (''name'', JString ''ACME'')]]) \<and>
   \<not> truthy (data (response_remaining ''597'')) \<and>
   fst (getFirms ''token'' (Resolved (response_remaining ''597'')) 1000
          (create sample_options 0)) = Resolved (JArray [])"
proof -
  let ?firms = "JArray [JObject [(''id'', JNumber 12), (''name'', JString ''ACME'')]]"
  let ?kvs = "[(''id'', JNumber 7), (''firms'', ?firms)]"
  have h1: "data account_response = JObject ?kvs \<and> map_of ?kvs ''firms'' = Some ?firms"
    by (simp add: account_response_def account_body_def)
  have h2: "\<not> truthy (data (response_remaining ''597''))"
    by (simp add: response_remaining_def)
  show ?thesis
    using h1 h2
      getFirms_result [of account_response ?kvs ?firms "''token''" 1000 "create sample_options 0"]
      getFirms_result [of "response_remaining ''597''" _ _ "''token''" 1000
                          "create sample_options 0"]
    by simp
qed

end
